theory Spec2Isabelle
  imports Main
begin

section \<open>Values that cross the boundary of the client\<close>

text \<open>
  A value raised by a rejected promise. The API wrappers of \<^verbatim>\<open>api/auth.ts\<close> tell an
  \<^verbatim>\<open>Error\<close> instance (which has a message and, for an HTTP failure, the body of the
  response) from any other raised value. The body is kept as text; the empty text stands
  for a body that JavaScript takes as false.
\<close>

datatype thrown =
    ErrorObject string "string option"
  | NonError string

text \<open>The second argument of a \<^verbatim>\<open>console.error\<close> call.\<close>

datatype log_arg = LogText string | LogThrown thrown

text \<open>The interfaces \<^verbatim>\<open>LoginCredentials\<close>, \<^verbatim>\<open>RegisterData\<close> and \<^verbatim>\<open>AuthResponse\<close>.\<close>

record LoginCredentials =
  username :: string
  password :: string

record RegisterData =
  reg_email :: string
  reg_password :: string
  first_name :: string
  last_name :: string

record AuthResponse =
  access_token :: string
  refresh_token :: string
  token_type :: string

text \<open>
  A request handed to \<^verbatim>\<open>api.post\<close>. The form body is the list of pairs appended to
  the \<^verbatim>\<open>URLSearchParams\<close> object, in order; its serialisation is the platform's.
\<close>

datatype body = FormEncoded "(string \<times> string) list" | JsonBody RegisterData

record request =
  url :: string
  payload :: body
  headers :: "(string \<times> string) list"

section \<open>The session, the device storage and what the code does to them\<close>

text \<open>
  Every call of a state setter, of the HTTP client, of the key-value storage and of the
  console is recorded, in the order the code makes it.
\<close>

datatype event =
    SetLoading bool
  | SetError "string option"
  | SetIsAuthenticated bool
  | HttpPost request
  | StorageGet string
  | StorageSet string string
  | StorageRemove string
  | ConsoleError string log_arg

text \<open>
  The three \<^verbatim>\<open>useState\<close> cells of \<^verbatim>\<open>AuthProvider\<close>, the contents of
  \<^verbatim>\<open>AsyncStorage\<close>, and the calls made so far.
\<close>

record world =
  isAuthenticated :: bool
  loading :: bool
  error :: "string option"
  storage :: "string \<rightharpoonup> string"
  trace :: "event list"

text \<open>
  What lies outside the repository: whether a storage operation rejects (and with what),
  and what the backend answers to a request. The HTTP client \<^verbatim>\<open>api\<close> is imported from
  a module that is not part of the sources, so its answers are a parameter.
\<close>

record env =
  getItem_fault :: "thrown option"
  setItem_fault :: "thrown option"
  removeItem_fault :: "thrown option"
  token_endpoint :: "request \<Rightarrow> thrown + AuthResponse"
  users_endpoint :: "request \<Rightarrow> thrown + string"

text \<open>The initial values of the three state cells, over some stored contents.\<close>

definition initial :: "(string \<rightharpoonup> string) \<Rightarrow> world" where
  "initial st =
     \<lparr>isAuthenticated = False, loading = True, error = None, storage = st, trace = []\<rparr>"

definition emit :: "event \<Rightarrow> world \<Rightarrow> world" where
  "emit e w = w\<lparr>trace := trace w @ [e]\<rparr>"

definition setLoading :: "bool \<Rightarrow> world \<Rightarrow> world" where
  "setLoading b w = emit (SetLoading b) (w\<lparr>loading := b\<rparr>)"

definition setError :: "string option \<Rightarrow> world \<Rightarrow> world" where
  "setError e w = emit (SetError e) (w\<lparr>error := e\<rparr>)"

definition setIsAuthenticated :: "bool \<Rightarrow> world \<Rightarrow> world" where
  "setIsAuthenticated b w = emit (SetIsAuthenticated b) (w\<lparr>isAuthenticated := b\<rparr>)"

definition console_error :: "string \<Rightarrow> log_arg \<Rightarrow> world \<Rightarrow> world" where
  "console_error label a w = emit (ConsoleError label a) w"

subsection \<open>AsyncStorage\<close>

text \<open>A rejected operation leaves the stored contents as they were.\<close>

definition getItem :: "env \<Rightarrow> string \<Rightarrow> world \<Rightarrow> (thrown + string option) \<times> world" where
  "getItem en k w =
     (case getItem_fault en of
        Some e \<Rightarrow> (Inl e, emit (StorageGet k) w)
      | None \<Rightarrow> (Inr (storage w k), emit (StorageGet k) w))"

definition setItem :: "env \<Rightarrow> string \<Rightarrow> string \<Rightarrow> world \<Rightarrow> (thrown + unit) \<times> world" where
  "setItem en k v w =
     (case setItem_fault en of
        Some e \<Rightarrow> (Inl e, emit (StorageSet k v) w)
      | None \<Rightarrow> (Inr (), emit (StorageSet k v) (w\<lparr>storage := (storage w)(k \<mapsto> v)\<rparr>)))"

definition removeItem :: "env \<Rightarrow> string \<Rightarrow> world \<Rightarrow> (thrown + unit) \<times> world" where
  "removeItem en k w =
     (case removeItem_fault en of
        Some e \<Rightarrow> (Inl e, emit (StorageRemove k) w)
      | None \<Rightarrow> (Inr (), emit (StorageRemove k) (w\<lparr>storage := (storage w)(k := None)\<rparr>)))"

text \<open>JavaScript's \<^verbatim>\<open>!!token\<close> for a value that is a string or null.\<close>

definition truthy :: "string option \<Rightarrow> bool" where
  "truthy t = (case t of None \<Rightarrow> False | Some s \<Rightarrow> s \<noteq> [])"

section \<open>The API wrappers (api/auth.ts)\<close>

text \<open>
  What the \<^verbatim>\<open>catch\<close> blocks of the wrappers print:
  \<^verbatim>\<open>error.response?.data || error.message\<close> for an \<^verbatim>\<open>Error\<close>, the raised value itself
  otherwise.
\<close>

definition api_log_arg :: "thrown \<Rightarrow> log_arg" where
  "api_log_arg e =
     (case e of
        ErrorObject msg d \<Rightarrow>
          (case d of
             Some x \<Rightarrow> if x \<noteq> [] then LogText x else LogText msg
           | None \<Rightarrow> LogText msg)
      | NonError v \<Rightarrow> LogThrown e)"

definition login_request :: "LoginCredentials \<Rightarrow> request" where
  "login_request credentials =
     \<lparr>url = ''/api/v1/auth/token'',
      payload = FormEncoded
        [(''grant_type'', ''password''),
         (''username'', username credentials),
         (''password'', password credentials)],
      headers = [(''Content-Type'', ''application/x-www-form-urlencoded'')]\<rparr>"

definition authApi_login ::
  "env \<Rightarrow> LoginCredentials \<Rightarrow> world \<Rightarrow> (thrown + AuthResponse) \<times> world" where
  "authApi_login en credentials w =
     (let req = login_request credentials; w1 = emit (HttpPost req) w in
      case token_endpoint en req of
        Inr data \<Rightarrow> (Inr data, w1)
      | Inl e \<Rightarrow> (Inl e, console_error ''Login error:'' (api_log_arg e) w1))"

definition register_request :: "RegisterData \<Rightarrow> request" where
  "register_request d = \<lparr>url = ''/api/v1/auth/users'', payload = JsonBody d, headers = []\<rparr>"

definition authApi_register ::
  "env \<Rightarrow> RegisterData \<Rightarrow> world \<Rightarrow> (thrown + string) \<times> world" where
  "authApi_register en d w =
     (let req = register_request d; w1 = emit (HttpPost req) w in
      case users_endpoint en req of
        Inr data \<Rightarrow> (Inr data, w1)
      | Inl e \<Rightarrow> (Inl e, console_error ''Registration error:'' (api_log_arg e) w1))"

section \<open>The session manager (AuthProvider)\<close>

text \<open>
  Each operation is an async function with \<^verbatim>\<open>try\<close>, \<^verbatim>\<open>catch\<close> and (but for logout)
  \<^verbatim>\<open>finally\<close>. The body of the \<^verbatim>\<open>try\<close> is a function of its own; the operation
  applies the \<^verbatim>\<open>catch\<close> block to a raised value and then the \<^verbatim>\<open>finally\<close> block. A
  result \<open>Inl e\<close> is a promise rejected with \<open>e\<close>, \<open>Inr ()\<close> a resolved one.
\<close>

definition checkAuth_try :: "env \<Rightarrow> world \<Rightarrow> (thrown + unit) \<times> world" where
  "checkAuth_try en w =
     (case getItem en ''token'' w of
        (Inl e, w1) \<Rightarrow> (Inl e, w1)
      | (Inr token, w1) \<Rightarrow> (Inr (), setIsAuthenticated (truthy token) w1))"

definition checkAuth :: "env \<Rightarrow> world \<Rightarrow> (thrown + unit) \<times> world" where
  "checkAuth en w =
     (case checkAuth_try en w of
        (Inl err, w1) \<Rightarrow>
          (Inr (), setLoading False
             (console_error ''Error checking auth state:'' (LogThrown err) w1))
      | (Inr u, w1) \<Rightarrow> (Inr (), setLoading False w1))"

definition login_try :: "env \<Rightarrow> string \<Rightarrow> string \<Rightarrow> world \<Rightarrow> (thrown + unit) \<times> world" where
  "login_try en email pw w =
     (let w1 = setLoading True w; w2 = setError None w1 in
      case authApi_login en \<lparr>username = email, password = pw\<rparr> w2 of
        (Inl e, w3) \<Rightarrow> (Inl e, w3)
      | (Inr response, w3) \<Rightarrow>
          (case setItem en ''token'' (access_token response) w3 of
             (Inl e, w4) \<Rightarrow> (Inl e, w4)
           | (Inr u, w4) \<Rightarrow> (Inr (), setIsAuthenticated True w4)))"

definition login :: "env \<Rightarrow> string \<Rightarrow> string \<Rightarrow> world \<Rightarrow> (thrown + unit) \<times> world" where
  "login en email pw w =
     (case login_try en email pw w of
        (Inl err, w1) \<Rightarrow>
          (Inl err, setLoading False (setError (Some ''Invalid email or password'') w1))
      | (Inr u, w1) \<Rightarrow> (Inr (), setLoading False w1))"

definition register_try ::
  "env \<Rightarrow> string \<Rightarrow> string \<Rightarrow> string \<Rightarrow> string \<Rightarrow> world \<Rightarrow> (thrown + unit) \<times> world" where
  "register_try en email pw firstName lastName w =
     (let w1 = setLoading True w; w2 = setError None w1 in
      case authApi_register en
             \<lparr>reg_email = email, reg_password = pw,
              first_name = firstName, last_name = lastName\<rparr> w2 of
        (Inl e, w3) \<Rightarrow> (Inl e, w3)
      | (Inr created, w3) \<Rightarrow> login en email pw w3)"

definition register ::
  "env \<Rightarrow> string \<Rightarrow> string \<Rightarrow> string \<Rightarrow> string \<Rightarrow> world \<Rightarrow> (thrown + unit) \<times> world" where
  "register en email pw firstName lastName w =
     (case register_try en email pw firstName lastName w of
        (Inl err, w1) \<Rightarrow>
          (Inl err,
           setLoading False (setError (Some ''Registration failed. Please try again.'') w1))
      | (Inr u, w1) \<Rightarrow> (Inr (), setLoading False w1))"

definition logout_try :: "env \<Rightarrow> world \<Rightarrow> (thrown + unit) \<times> world" where
  "logout_try en w =
     (case removeItem en ''token'' w of
        (Inl e, w1) \<Rightarrow> (Inl e, w1)
      | (Inr u, w1) \<Rightarrow> (Inr (), setIsAuthenticated False w1))"

definition logout :: "env \<Rightarrow> world \<Rightarrow> (thrown + unit) \<times> world" where
  "logout en w =
     (case logout_try en w of
        (Inl err, w1) \<Rightarrow> (Inr (), console_error ''Error during logout:'' (LogThrown err) w1)
      | (Inr u, w1) \<Rightarrow> (Inr (), w1))"

section \<open>The navigation shell (App and TabNavigator)\<close>

datatype navigator = TabNavigator | AuthNavigator

datatype element = ActivityIndicator | NavigationContainer navigator

definition Navigation :: "world \<Rightarrow> element" where
  "Navigation w =
     (if loading w then ActivityIndicator
      else NavigationContainer (if isAuthenticated w then TabNavigator else AuthNavigator))"

datatype component = HomeScreen | WorkoutsScreen | SleepScreen | RecoveryScreen | ProfileScreen

text \<open>The \<^verbatim>\<open>Tab.Screen\<close> children of the tab navigator, in order: name, component, title.\<close>

definition Tab_Screens :: "(string \<times> component \<times> string option) list" where
  "Tab_Screens =
     [(''Home'', HomeScreen, Some ''Dashboard''),
      (''Workouts'', WorkoutsScreen, None),
      (''Sleep'', SleepScreen, None),
      (''Recovery'', RecoveryScreen, None),
      (''Profile'', ProfileScreen, None)]"

text \<open>The \<^verbatim>\<open>switch\<close> of \<^verbatim>\<open>tabBarIcon\<close> over the route name, with its default.\<close>

definition tabBarIcon :: "string \<Rightarrow> bool \<Rightarrow> string" where
  "tabBarIcon name focused =
     (if name = ''Home'' then (if focused then ''home'' else ''home-outline'')
      else if name = ''Workouts'' then (if focused then ''fitness'' else ''fitness-outline'')
      else if name = ''Sleep'' then (if focused then ''moon'' else ''moon-outline'')
      else if name = ''Recovery''
        then (if focused then ''refresh-circle'' else ''refresh-circle-outline'')
      else if name = ''Profile'' then (if focused then ''person'' else ''person-outline'')
      else ''home-outline'')"

section \<open>Observations of a run\<close>

text \<open>The requests among a list of events, and the values written to \<^verbatim>\<open>loading\<close>.\<close>

definition posts :: "event list \<Rightarrow> request list" where
  "posts es = concat (map (\<lambda>e. case e of HttpPost r \<Rightarrow> [r] | _ \<Rightarrow> []) es)"

definition loading_writes :: "event list \<Rightarrow> bool list" where
  "loading_writes es = concat (map (\<lambda>e. case e of SetLoading b \<Rightarrow> [b] | _ \<Rightarrow> []) es)"

text \<open>The events a call added: those of the world after it that the world before lacks.\<close>

definition new_events :: "world \<Rightarrow> world \<Rightarrow> event list" where
  "new_events w w' = drop (length (trace w)) (trace w')"

subsection \<open>Concrete surroundings and sessions\<close>

text \<open>
  A backend and a storage that work, a storage whose every operation rejects, and a
  backend that refuses every request.
\<close>

definition healthy :: env where
  "healthy =
     \<lparr>getItem_fault = None, setItem_fault = None, removeItem_fault = None,
      token_endpoint =
        (\<lambda>q. Inr \<lparr>access_token = ''tok1'', refresh_token = ''ref1'', token_type = ''bearer''\<rparr>),
      users_endpoint = (\<lambda>q. Inr ''created'')\<rparr>"

definition storage_down :: env where
  "storage_down =
     healthy\<lparr>getItem_fault := Some (ErrorObject ''storage unavailable'' None),
             setItem_fault := Some (ErrorObject ''storage unavailable'' None),
             removeItem_fault := Some (ErrorObject ''storage unavailable'' None)\<rparr>"

definition backend_down :: env where
  "backend_down =
     healthy\<lparr>token_endpoint :=
               (\<lambda>q. Inl (ErrorObject ''Request failed with status code 401''
                            (Some ''Incorrect username or password''))),
             users_endpoint := (\<lambda>q. Inl (NonError ''timeout''))\<rparr>"

text \<open>
  The session after the startup check on an empty storage, and the session after a
  successful login that follows it.
\<close>

definition signed_out :: world where
  "signed_out = snd (checkAuth healthy (initial Map.empty))"

definition signed_in :: world where
  "signed_in = snd (login healthy ''user@example.com'' ''pw'' signed_out)"

section \<open>The operations, path by path\<close>

lemmas setter_defs = emit_def setLoading_def setError_def setIsAuthenticated_def console_error_def
lemmas env_defs = healthy_def storage_down_def backend_down_def

lemma login_cases:
  "login en email pw w =
    (let req = login_request \<lparr>username = email, password = pw\<rparr>;
         w2 = emit (HttpPost req) (setError None (setLoading True w)) in
     case token_endpoint en req of
       Inl e \<Rightarrow> (Inl e, setLoading False (setError (Some ''Invalid email or password'')
                    (console_error ''Login error:'' (api_log_arg e) w2)))
     | Inr r \<Rightarrow>
        (case setItem_fault en of
           Some e \<Rightarrow> (Inl e, setLoading False (setError (Some ''Invalid email or password'')
                    (emit (StorageSet ''token'' (access_token r)) w2)))
         | None \<Rightarrow> (Inr (), setLoading False (setIsAuthenticated True
                    (emit (StorageSet ''token'' (access_token r))
                       (w2\<lparr>storage := (storage w2)(''token'' \<mapsto> access_token r)\<rparr>))))))"
  by (simp add: login_def login_try_def authApi_login_def setItem_def Let_def
      split: sum.splits option.splits)

lemma logout_cases:
  "logout en w =
     (case removeItem_fault en of
        Some e \<Rightarrow> (Inr (), console_error ''Error during logout:'' (LogThrown e)
                      (emit (StorageRemove ''token'') w))
      | None \<Rightarrow> (Inr (), setIsAuthenticated False
                      (emit (StorageRemove ''token'') (w\<lparr>storage := (storage w)(''token'' := None)\<rparr>))))"
  by (simp add: logout_def logout_try_def removeItem_def split: option.splits)

lemma checkAuth_cases:
  "checkAuth en w =
     (case getItem_fault en of
        Some e \<Rightarrow> (Inr (), setLoading False
                      (console_error ''Error checking auth state:'' (LogThrown e)
                         (emit (StorageGet ''token'') w)))
      | None \<Rightarrow> (Inr (), setLoading False
                      (setIsAuthenticated (truthy (storage w ''token''))
                         (emit (StorageGet ''token'') w))))"
  by (simp add: checkAuth_def checkAuth_try_def getItem_def split: option.splits)

lemma register_cases:
  "register en email pw firstName lastName w =
     (let req = register_request \<lparr>reg_email = email, reg_password = pw,
                                  first_name = firstName, last_name = lastName\<rparr>;
          w3 = emit (HttpPost req) (setError None (setLoading True w)) in
      case users_endpoint en req of
        Inl e \<Rightarrow>
          (Inl e, setLoading False (setError (Some ''Registration failed. Please try again.'')
                    (console_error ''Registration error:'' (api_log_arg e) w3)))
      | Inr created \<Rightarrow>
          (case login en email pw w3 of
             (Inl e, w4) \<Rightarrow>
               (Inl e, setLoading False
                         (setError (Some ''Registration failed. Please try again.'') w4))
           | (Inr u, w4) \<Rightarrow> (Inr (), setLoading False w4)))"
  by (simp add: register_def register_try_def authApi_register_def Let_def
      split: sum.splits prod.splits)

lemma signed_out_eq:
  "signed_out =
     \<lparr>isAuthenticated = False, loading = False, error = None, storage = Map.empty,
      trace = [StorageGet ''token'', SetIsAuthenticated False, SetLoading False]\<rparr>"
  by (simp add: signed_out_def checkAuth_cases healthy_def initial_def truthy_def setter_defs)

lemma signed_in_eq:
  "signed_in =
     \<lparr>isAuthenticated = True, loading = False, error = None,
      storage = [''token'' \<mapsto> ''tok1''],
      trace = [StorageGet ''token'', SetIsAuthenticated False, SetLoading False,
               SetLoading True, SetError None,
               HttpPost (login_request \<lparr>username = ''user@example.com'', password = ''pw''\<rparr>),
               StorageSet ''token'' ''tok1'', SetIsAuthenticated True, SetLoading False]\<rparr>"
  by (simp add: signed_in_def signed_out_eq login_cases healthy_def setter_defs Let_def)

section \<open>Logout\<close>

text \<open>
  Claim C1, as the code has it. \<^verbatim>\<open>logout\<close> never rejects. When the storage removes the
  token, the session ends not authenticated and no token is stored. When the removal
  rejects, the \<^verbatim>\<open>catch\<close> block only prints the failure: the call of
  \<^verbatim>\<open>setIsAuthenticated(false)\<close> is skipped, so the session stays as it was, and so do
  the stored contents.
\<close>

theorem logout_best_effort:
  fixes en :: env and w :: world
  defines "w' \<equiv> snd (logout en w)"
  shows "fst (logout en w) = Inr () \<and>
    (removeItem_fault en = None \<longrightarrow>
       isAuthenticated w' = False \<and> storage w' ''token'' = None) \<and>
    (\<forall>e. removeItem_fault en = Some e \<longrightarrow>
       isAuthenticated w' = isAuthenticated w \<and> storage w' = storage w \<and>
       new_events w w' =
         [StorageRemove ''token'', ConsoleError ''Error during logout:'' (LogThrown e)])"
  unfolding w'_def
  by (simp add: logout_cases setter_defs new_events_def split: option.splits)

text \<open>Both paths of C1 on the session that follows a successful login.\<close>

theorem logout_best_effort_witness:
  "removeItem_fault healthy = None \<and>
   isAuthenticated (snd (logout healthy signed_in)) = False \<and>
   storage (snd (logout healthy signed_in)) ''token'' = None \<and>
   removeItem_fault storage_down = Some (ErrorObject ''storage unavailable'' None) \<and>
   isAuthenticated (snd (logout storage_down signed_in)) = isAuthenticated signed_in \<and>
   storage (snd (logout storage_down signed_in)) = storage signed_in \<and>
   fst (logout storage_down signed_in) = Inr ()"
  using logout_best_effort [of healthy signed_in] logout_best_effort [of storage_down signed_in]
  by (simp add: env_defs)

text \<open>
  Claim C1 as written fails: after a successful login, a logout whose removal rejects
  leaves the session authenticated and the token stored.
\<close>

theorem logout_failed_removal_counterexample:
  "removeItem_fault storage_down = Some (ErrorObject ''storage unavailable'' None) \<and>
   isAuthenticated signed_in \<and>
   isAuthenticated (snd (logout storage_down signed_in)) \<and>
   storage (snd (logout storage_down signed_in)) ''token'' = Some ''tok1''"
  by (simp add: logout_cases signed_in_eq env_defs setter_defs)

section \<open>Login\<close>

text \<open>
  Claim C2, as the code has it. When the token request fails, \<^verbatim>\<open>login\<close> rejects with
  the failure of the request, the error of the session is the text
  \<^verbatim>\<open>Invalid email or password\<close>, and \<^verbatim>\<open>isAuthenticated\<close> and the stored contents are
  what they were before the call: the code never writes \<^verbatim>\<open>isAuthenticated\<close> on this path.
\<close>

theorem login_backend_failure:
  fixes en :: env and w :: world and email pw :: string
  defines "w' \<equiv> snd (login en email pw w)"
  assumes "token_endpoint en (login_request \<lparr>username = email, password = pw\<rparr>) = Inl e"
  shows "fst (login en email pw w) = Inl e \<and>
    isAuthenticated w' = isAuthenticated w \<and>
    error w' = Some ''Invalid email or password'' \<and>
    storage w' = storage w"
  unfolding w'_def using assms(2)
  by (simp add: login_cases setter_defs Let_def)

text \<open>C2 on a session that is not authenticated: it ends not authenticated.\<close>

theorem login_backend_failure_witness:
  "token_endpoint backend_down
     (login_request \<lparr>username = ''user@example.com'', password = ''wrong''\<rparr>) =
     Inl (ErrorObject ''Request failed with status code 401''
            (Some ''Incorrect username or password'')) \<and>
   fst (login backend_down ''user@example.com'' ''wrong'' signed_out) =
     Inl (ErrorObject ''Request failed with status code 401''
            (Some ''Incorrect username or password'')) \<and>
   isAuthenticated (snd (login backend_down ''user@example.com'' ''wrong'' signed_out)) = False \<and>
   error (snd (login backend_down ''user@example.com'' ''wrong'' signed_out)) =
     Some ''Invalid email or password''"
proof -
  have h: "token_endpoint backend_down
      (login_request \<lparr>username = ''user@example.com'', password = ''wrong''\<rparr>) =
      Inl (ErrorObject ''Request failed with status code 401''
            (Some ''Incorrect username or password''))"
    by (simp add: env_defs)
  show ?thesis
    using h login_backend_failure [OF h, where w = signed_out] by (simp add: signed_out_eq)
qed

text \<open>
  Claim C2 as written fails: a failed login on a session that is already authenticated
  ends authenticated.
\<close>

theorem login_failure_while_signed_in_counterexample:
  "token_endpoint backend_down
     (login_request \<lparr>username = ''user@example.com'', password = ''wrong''\<rparr>) =
     Inl (ErrorObject ''Request failed with status code 401''
            (Some ''Incorrect username or password'')) \<and>
   isAuthenticated (snd (login backend_down ''user@example.com'' ''wrong'' signed_in))"
  by (simp add: login_cases signed_in_eq env_defs setter_defs Let_def)

text \<open>
  Claim C3, as the code has it. When the backend returns a token response and the write
  to the storage succeeds, \<^verbatim>\<open>login\<close> resolves, the access token is stored under the
  key \<^verbatim>\<open>token\<close>, the error is cleared and the session ends authenticated.
\<close>

theorem login_success:
  fixes en :: env and w :: world and email pw :: string
  defines "w' \<equiv> snd (login en email pw w)"
  assumes "token_endpoint en (login_request \<lparr>username = email, password = pw\<rparr>) = Inr r"
    and "setItem_fault en = None"
  shows "fst (login en email pw w) = Inr () \<and>
    storage w' = (storage w)(''token'' \<mapsto> access_token r) \<and>
    error w' = None \<and>
    isAuthenticated w' = True"
  unfolding w'_def using assms(2,3)
  by (simp add: login_cases setter_defs Let_def)

text \<open>C3 on the example of the specification: the token \<^verbatim>\<open>tok1\<close> is stored.\<close>

theorem login_success_witness:
  "token_endpoint healthy
     (login_request \<lparr>username = ''user@example.com'', password = ''pw''\<rparr>) =
     Inr \<lparr>access_token = ''tok1'', refresh_token = ''ref1'', token_type = ''bearer''\<rparr> \<and>
   setItem_fault healthy = None \<and>
   storage (snd (login healthy ''user@example.com'' ''pw'' signed_out)) ''token'' = Some ''tok1'' \<and>
   error (snd (login healthy ''user@example.com'' ''pw'' signed_out)) = None \<and>
   isAuthenticated (snd (login healthy ''user@example.com'' ''pw'' signed_out)) = True"
proof -
  have h1: "token_endpoint healthy
      (login_request \<lparr>username = ''user@example.com'', password = ''pw''\<rparr>) =
      Inr \<lparr>access_token = ''tok1'', refresh_token = ''ref1'', token_type = ''bearer''\<rparr>"
    by (simp add: env_defs)
  have h2: "setItem_fault healthy = None"
    by (simp add: env_defs)
  show ?thesis
    using h1 h2 login_success [OF h1 h2, where w = signed_out] by simp
qed

text \<open>
  Claim C3 as written fails: the write to the storage stands inside the same \<^verbatim>\<open>try\<close>
  block, so when it rejects after a token response nothing is stored, the error is set,
  the session is not authenticated and the call rejects.
\<close>

theorem login_storage_write_fails_counterexample:
  "token_endpoint storage_down
     (login_request \<lparr>username = ''user@example.com'', password = ''pw''\<rparr>) =
     Inr \<lparr>access_token = ''tok1'', refresh_token = ''ref1'', token_type = ''bearer''\<rparr> \<and>
   storage (snd (login storage_down ''user@example.com'' ''pw'' signed_out)) ''token'' = None \<and>
   error (snd (login storage_down ''user@example.com'' ''pw'' signed_out)) =
     Some ''Invalid email or password'' \<and>
   isAuthenticated (snd (login storage_down ''user@example.com'' ''pw'' signed_out)) = False \<and>
   fst (login storage_down ''user@example.com'' ''pw'' signed_out) =
     Inl (ErrorObject ''storage unavailable'' None)"
  by (simp add: login_cases signed_out_eq env_defs setter_defs Let_def)

text \<open>
  Claim C8. Every login call writes \<^verbatim>\<open>loading\<close> exactly twice: \<^verbatim>\<open>true\<close> as its first
  action and \<^verbatim>\<open>false\<close> as its last, on each of its paths (the backend fails, the
  storage write fails, or the call succeeds), so it ends with \<^verbatim>\<open>loading\<close> false. It
  sends the token request exactly once: there is no retry.
\<close>

theorem login_loading_bracket:
  fixes en :: env and w :: world and email pw :: string
  defines "w' \<equiv> snd (login en email pw w)"
  shows "trace w' = trace w @ new_events w w' \<and>
    hd (new_events w w') = SetLoading True \<and>
    last (new_events w w') = SetLoading False \<and>
    loading_writes (new_events w w') = [True, False] \<and>
    loading w' = False \<and>
    posts (new_events w w') = [login_request \<lparr>username = email, password = pw\<rparr>]"
  unfolding w'_def
  by (simp add: login_cases setter_defs new_events_def posts_def loading_writes_def Let_def
      split: sum.splits option.splits)

text \<open>C8 on the three paths, with the whole run of the path on which the backend fails.\<close>

theorem login_loading_bracket_witness:
  "loading (snd (login healthy ''user@example.com'' ''pw'' signed_out)) = False \<and>
   loading (snd (login backend_down ''user@example.com'' ''pw'' signed_out)) = False \<and>
   loading (snd (login storage_down ''user@example.com'' ''pw'' signed_out)) = False \<and>
   new_events signed_out (snd (login backend_down ''user@example.com'' ''pw'' signed_out)) =
     [SetLoading True, SetError None,
      HttpPost (login_request \<lparr>username = ''user@example.com'', password = ''pw''\<rparr>),
      ConsoleError ''Login error:'' (LogText ''Incorrect username or password''),
      SetError (Some ''Invalid email or password''), SetLoading False]"
  using login_loading_bracket [where en = healthy and email = "''user@example.com''"
      and pw = "''pw''" and w = signed_out]
    login_loading_bracket [where en = backend_down and email = "''user@example.com''"
      and pw = "''pw''" and w = signed_out]
    login_loading_bracket [where en = storage_down and email = "''user@example.com''"
      and pw = "''pw''" and w = signed_out]
  by (simp add: login_cases env_defs signed_out_eq setter_defs new_events_def api_log_arg_def
      Let_def)

text \<open>
  Claim C7. Every login call sends exactly one request: a POST to
  \<^verbatim>\<open>/api/v1/auth/token\<close> whose form body has the three fields \<^verbatim>\<open>grant_type=password\<close>,
  \<^verbatim>\<open>username\<close> (the identifier) and \<^verbatim>\<open>password\<close> (the secret), in this order and
  nothing else. The only change the call can make to the stored contents is to put the
  access token of the response under the key \<^verbatim>\<open>token\<close>; and the call does not depend on
  the refresh token or the token type of the response: replacing them by any other
  values gives the same result and the same world.
\<close>

theorem login_token_request:
  fixes en :: env and w :: world and ident secret x y :: string
  defines "w' \<equiv> snd (login en ident secret w)"
  shows "posts (new_events w w') =
      [\<lparr>url = ''/api/v1/auth/token'',
        payload = FormEncoded
          [(''grant_type'', ''password''), (''username'', ident), (''password'', secret)],
        headers = [(''Content-Type'', ''application/x-www-form-urlencoded'')]\<rparr>] \<and>
    (\<forall>r. token_endpoint en (login_request \<lparr>username = ident, password = secret\<rparr>) = Inr r \<and>
         setItem_fault en = None \<longrightarrow>
         storage w' = (storage w)(''token'' \<mapsto> access_token r)) \<and>
    (\<forall>e. token_endpoint en (login_request \<lparr>username = ident, password = secret\<rparr>) = Inl e \<or>
         setItem_fault en = Some e \<longrightarrow> storage w' = storage w) \<and>
    (\<forall>k. k \<noteq> ''token'' \<longrightarrow> storage w' k = storage w k) \<and>
    login (en\<lparr>token_endpoint :=
                 (\<lambda>q. case token_endpoint en q of
                        Inl e \<Rightarrow> Inl e
                      | Inr r \<Rightarrow> Inr (r\<lparr>refresh_token := x, token_type := y\<rparr>))\<rparr>)
      ident secret w = login en ident secret w"
  unfolding w'_def
  by (simp add: login_cases login_request_def setter_defs new_events_def posts_def Let_def
      split: sum.splits option.splits)

text \<open>C7 with a working storage, a failing storage and a failing backend.\<close>

theorem login_token_request_witness:
  "token_endpoint healthy
     (login_request \<lparr>username = ''user@example.com'', password = ''pw''\<rparr>) =
     Inr \<lparr>access_token = ''tok1'', refresh_token = ''ref1'', token_type = ''bearer''\<rparr> \<and>
   setItem_fault healthy = None \<and>
   storage (snd (login healthy ''user@example.com'' ''pw'' signed_out)) = [''token'' \<mapsto> ''tok1''] \<and>
   setItem_fault storage_down = Some (ErrorObject ''storage unavailable'' None) \<and>
   storage (snd (login storage_down ''user@example.com'' ''pw'' signed_out)) = Map.empty \<and>
   posts (new_events signed_out (snd (login healthy ''user@example.com'' ''pw'' signed_out))) =
     [\<lparr>url = ''/api/v1/auth/token'',
       payload = FormEncoded
         [(''grant_type'', ''password''), (''username'', ''user@example.com''),
          (''password'', ''pw'')],
       headers = [(''Content-Type'', ''application/x-www-form-urlencoded'')]\<rparr>] \<and>
   token_endpoint backend_down
     (login_request \<lparr>username = ''user@example.com'', password = ''pw''\<rparr>) =
     Inl (ErrorObject ''Request failed with status code 401''
            (Some ''Incorrect username or password'')) \<and>
   storage (snd (login backend_down ''user@example.com'' ''pw'' signed_out)) = Map.empty \<and>
   ''theme'' \<noteq> ''token'' \<and>
   storage (snd (login healthy ''user@example.com'' ''pw'' signed_out)) ''theme'' = None"
  using login_token_request [where en = healthy and ident = "''user@example.com''"
      and secret = "''pw''" and w = signed_out]
    login_token_request [where en = storage_down and ident = "''user@example.com''"
      and secret = "''pw''" and w = signed_out]
    login_token_request [where en = backend_down and ident = "''user@example.com''"
      and secret = "''pw''" and w = signed_out]
  by (simp add: env_defs signed_out_eq)

section \<open>Register\<close>

text \<open>
  Claim C4. When the user-creation request succeeds, \<^verbatim>\<open>register\<close> goes on with the
  \<^verbatim>\<open>login\<close> operation on the same email and password, right after the request: its
  result is the result of that login, and the requests it sends are the creation
  request followed by the token request for these credentials. \<^verbatim>\<open>register\<close> itself
  does not write \<^verbatim>\<open>isAuthenticated\<close> or the storage: when the inner login rejects, the
  call rejects with the same failure and both are as before. When the creation request
  fails, the call rejects with that failure, the error is the generic text of
  registration, and no token request is sent.
\<close>

theorem register_then_login:
  fixes en :: env and w :: world and email pw firstName lastName :: string
  defines "req \<equiv> register_request \<lparr>reg_email = email, reg_password = pw,
                                       first_name = firstName, last_name = lastName\<rparr>"
  defines "out \<equiv> register en email pw firstName lastName w"
  defines "inner \<equiv> login en email pw (emit (HttpPost req) (setError None (setLoading True w)))"
  shows "(\<forall>created. users_endpoint en req = Inr created \<longrightarrow>
       fst out = fst inner \<and>
       snd out = setLoading False
         (if isl (fst inner)
          then setError (Some ''Registration failed. Please try again.'') (snd inner)
          else snd inner) \<and>
       posts (new_events w (snd out)) =
         [req, login_request \<lparr>username = email, password = pw\<rparr>] \<and>
       (\<forall>e. fst inner = Inl e \<longrightarrow>
          fst out = Inl e \<and> isAuthenticated (snd out) = isAuthenticated w \<and>
          storage (snd out) = storage w)) \<and>
     (\<forall>e. users_endpoint en req = Inl e \<longrightarrow>
       fst out = Inl e \<and>
       error (snd out) = Some ''Registration failed. Please try again.'' \<and>
       posts (new_events w (snd out)) = [req] \<and>
       isAuthenticated (snd out) = isAuthenticated w \<and>
       storage (snd out) = storage w)"
proof (intro conjI allI impI)
  fix created assume ok: "users_endpoint en req = Inr created"
  show a: "fst out = fst inner"
    using ok unfolding out_def inner_def req_def
    by (simp add: register_cases Let_def split: prod.splits sum.splits)
  show "snd out = setLoading False
         (if isl (fst inner)
          then setError (Some ''Registration failed. Please try again.'') (snd inner)
          else snd inner)"
    using ok unfolding out_def inner_def req_def
    by (simp add: register_cases Let_def split: prod.splits sum.splits)
  show "posts (new_events w (snd out)) =
         [req, login_request \<lparr>username = email, password = pw\<rparr>]"
    using ok unfolding out_def req_def
    by (simp add: register_cases login_cases new_events_def setter_defs posts_def Let_def
        split: prod.splits sum.splits option.splits)
  fix e assume rej: "fst inner = Inl e"
  show "fst out = Inl e" using a rej by simp
  show "isAuthenticated (snd out) = isAuthenticated w"
    using ok rej unfolding out_def inner_def req_def
    by (simp add: register_cases login_cases setter_defs Let_def
        split: prod.splits sum.splits option.splits)
  show "storage (snd out) = storage w"
    using ok rej unfolding out_def inner_def req_def
    by (simp add: register_cases login_cases setter_defs Let_def
        split: prod.splits sum.splits option.splits)
next
  fix e assume bad: "users_endpoint en req = Inl e"
  show "fst out = Inl e"
    using bad unfolding out_def req_def by (simp add: register_cases Let_def)
  show "error (snd out) = Some ''Registration failed. Please try again.''"
    using bad unfolding out_def req_def by (simp add: register_cases setter_defs Let_def)
  show "posts (new_events w (snd out)) = [req]"
    using bad unfolding out_def req_def
    by (simp add: register_cases new_events_def setter_defs posts_def Let_def)
  show "isAuthenticated (snd out) = isAuthenticated w"
    using bad unfolding out_def req_def by (simp add: register_cases setter_defs Let_def)
  show "storage (snd out) = storage w"
    using bad unfolding out_def req_def by (simp add: register_cases setter_defs Let_def)
qed

text \<open>
  C4 on three runs: all works; the user is created but the inner login fails (the
  storage rejects the write); the creation request fails.
\<close>

theorem register_then_login_witness:
  "users_endpoint healthy
     (register_request \<lparr>reg_email = ''user@example.com'', reg_password = ''pw'',
                        first_name = ''Ada'', last_name = ''Byron''\<rparr>) = Inr ''created'' \<and>
   fst (register healthy ''user@example.com'' ''pw'' ''Ada'' ''Byron'' signed_out) = Inr () \<and>
   posts (new_events signed_out
            (snd (register healthy ''user@example.com'' ''pw'' ''Ada'' ''Byron'' signed_out))) =
     [register_request \<lparr>reg_email = ''user@example.com'', reg_password = ''pw'',
                         first_name = ''Ada'', last_name = ''Byron''\<rparr>,
      login_request \<lparr>username = ''user@example.com'', password = ''pw''\<rparr>] \<and>
   users_endpoint storage_down
     (register_request \<lparr>reg_email = ''user@example.com'', reg_password = ''pw'',
                        first_name = ''Ada'', last_name = ''Byron''\<rparr>) = Inr ''created'' \<and>
   fst (login storage_down ''user@example.com'' ''pw''
          (emit (HttpPost (register_request
                   \<lparr>reg_email = ''user@example.com'', reg_password = ''pw'',
                    first_name = ''Ada'', last_name = ''Byron''\<rparr>))
             (setError None (setLoading True signed_out)))) =
     Inl (ErrorObject ''storage unavailable'' None) \<and>
   fst (register storage_down ''user@example.com'' ''pw'' ''Ada'' ''Byron'' signed_out) =
     Inl (ErrorObject ''storage unavailable'' None) \<and>
   isAuthenticated
     (snd (register storage_down ''user@example.com'' ''pw'' ''Ada'' ''Byron'' signed_out)) =
     isAuthenticated signed_out \<and>
   users_endpoint backend_down
     (register_request \<lparr>reg_email = ''user@example.com'', reg_password = ''pw'',
                        first_name = ''Ada'', last_name = ''Byron''\<rparr>) =
     Inl (NonError ''timeout'') \<and>
   fst (register backend_down ''user@example.com'' ''pw'' ''Ada'' ''Byron'' signed_out) =
     Inl (NonError ''timeout'') \<and>
   error (snd (register backend_down ''user@example.com'' ''pw'' ''Ada'' ''Byron'' signed_out)) =
     Some ''Registration failed. Please try again.''"
proof -
  let ?req = "register_request \<lparr>reg_email = ''user@example.com'', reg_password = ''pw'',
                                 first_name = ''Ada'', last_name = ''Byron''\<rparr>"
  let ?w3 = "emit (HttpPost ?req) (setError None (setLoading True signed_out))"
  note inst = register_then_login [where email = "''user@example.com''" and pw = "''pw''"
      and firstName = "''Ada''" and lastName = "''Byron''" and w = signed_out]
  have ok1: "users_endpoint healthy ?req = Inr ''created''"
    by (simp add: env_defs)
  have ok2: "users_endpoint storage_down ?req = Inr ''created''"
    by (simp add: env_defs)
  have bad: "users_endpoint backend_down ?req = Inl (NonError ''timeout'')"
    by (simp add: env_defs)
  have in1: "fst (login healthy ''user@example.com'' ''pw'' ?w3) = Inr ()"
    by (simp add: login_cases env_defs Let_def)
  have in2: "fst (login storage_down ''user@example.com'' ''pw'' ?w3) =
      Inl (ErrorObject ''storage unavailable'' None)"
    by (simp add: login_cases env_defs Let_def)
  from inst [where en = healthy] ok1
  have a: "fst (register healthy ''user@example.com'' ''pw'' ''Ada'' ''Byron'' signed_out) =
      fst (login healthy ''user@example.com'' ''pw'' ?w3)"
    and a2: "posts (new_events signed_out
        (snd (register healthy ''user@example.com'' ''pw'' ''Ada'' ''Byron'' signed_out))) =
      [?req, login_request \<lparr>username = ''user@example.com'', password = ''pw''\<rparr>]"
    by blast+
  from inst [where en = storage_down] ok2 in2
  have b: "fst (register storage_down ''user@example.com'' ''pw'' ''Ada'' ''Byron'' signed_out) =
      Inl (ErrorObject ''storage unavailable'' None)"
    and b2: "isAuthenticated
        (snd (register storage_down ''user@example.com'' ''pw'' ''Ada'' ''Byron'' signed_out)) =
      isAuthenticated signed_out"
    by blast+
  from inst [where en = backend_down] bad
  have c: "fst (register backend_down ''user@example.com'' ''pw'' ''Ada'' ''Byron'' signed_out) =
      Inl (NonError ''timeout'')"
    and c2: "error
        (snd (register backend_down ''user@example.com'' ''pw'' ''Ada'' ''Byron'' signed_out)) =
      Some ''Registration failed. Please try again.''"
    by blast+
  show ?thesis
    using ok1 ok2 bad in1 in2 a a2 b b2 c c2 by simp
qed

section \<open>The startup check\<close>

text \<open>
  Claim C5. \<^verbatim>\<open>checkAuth\<close> never rejects and always ends with \<^verbatim>\<open>loading\<close> false. When
  the read returns no token or the empty token the session ends not authenticated; when
  it returns a non-empty token the session ends authenticated. When the read rejects,
  the failure is printed and nothing else changes but \<^verbatim>\<open>loading\<close>: \<^verbatim>\<open>isAuthenticated\<close>
  keeps its value, which at startup is false, and no error is set.
\<close>

theorem checkAuth_outcomes:
  fixes en :: env and w :: world
  defines "w' \<equiv> snd (checkAuth en w)"
  shows "fst (checkAuth en w) = Inr () \<and> loading w' = False \<and>
    (getItem_fault en = None \<and> storage w ''token'' = None \<longrightarrow> isAuthenticated w' = False) \<and>
    (getItem_fault en = None \<and> storage w ''token'' = Some [] \<longrightarrow> isAuthenticated w' = False) \<and>
    (\<forall>t. getItem_fault en = None \<and> storage w ''token'' = Some t \<and> t \<noteq> [] \<longrightarrow>
       isAuthenticated w' = True) \<and>
    (\<forall>e. getItem_fault en = Some e \<longrightarrow>
       isAuthenticated w' = isAuthenticated w \<and> error w' = error w \<and>
       storage w' = storage w \<and>
       new_events w w' =
         [StorageGet ''token'',
          ConsoleError ''Error checking auth state:'' (LogThrown e), SetLoading False]) \<and>
    (\<forall>e st. getItem_fault en = Some e \<and> w = initial st \<longrightarrow>
       isAuthenticated w' = False \<and> error w' = None)"
  unfolding w'_def
  by (simp add: checkAuth_cases setter_defs new_events_def truthy_def initial_def
      split: option.splits)

text \<open>C5 at startup, on each of the four outcomes of the read.\<close>

theorem checkAuth_outcomes_witness:
  "getItem_fault healthy = None \<and>
   isAuthenticated (snd (checkAuth healthy (initial Map.empty))) = False \<and>
   loading (snd (checkAuth healthy (initial Map.empty))) = False \<and>
   isAuthenticated (snd (checkAuth healthy (initial [''token'' \<mapsto> []]))) = False \<and>
   isAuthenticated (snd (checkAuth healthy (initial [''token'' \<mapsto> ''abc123'']))) = True \<and>
   getItem_fault storage_down = Some (ErrorObject ''storage unavailable'' None) \<and>
   isAuthenticated (snd (checkAuth storage_down (initial [''token'' \<mapsto> ''abc123'']))) = False \<and>
   loading (snd (checkAuth storage_down (initial [''token'' \<mapsto> ''abc123'']))) = False \<and>
   fst (checkAuth storage_down (initial [''token'' \<mapsto> ''abc123''])) = Inr ()"
  using checkAuth_outcomes [where en = healthy and w = "initial Map.empty"]
    checkAuth_outcomes [where en = healthy and w = "initial [''token'' \<mapsto> []]"]
    checkAuth_outcomes [where en = healthy and w = "initial [''token'' \<mapsto> ''abc123'']"]
    checkAuth_outcomes [where en = storage_down and w = "initial [''token'' \<mapsto> ''abc123'']"]
  by (simp add: env_defs initial_def)

section \<open>Route selection\<close>

text \<open>
  Claim C6. What \<^verbatim>\<open>Navigation\<close> renders depends on \<^verbatim>\<open>loading\<close> and
  \<^verbatim>\<open>isAuthenticated\<close> only: the activity indicator alone while loading, the
  unauthenticated navigator when not loading and not authenticated, the tab navigator
  when not loading and authenticated. The tab navigator has exactly five tabs (Home,
  titled Dashboard, Workouts, Sleep, Recovery, Profile), with distinct names, each with
  a screen component of its own; the icon of a focused tab is the filled one and the icon
  of any other tab is the same name followed by \<^verbatim>\<open>-outline\<close>.
\<close>

theorem Navigation_selection:
  "(loading w \<longrightarrow> Navigation w = ActivityIndicator) \<and>
   (\<not> loading w \<and> \<not> isAuthenticated w \<longrightarrow> Navigation w = NavigationContainer AuthNavigator) \<and>
   (\<not> loading w \<and> isAuthenticated w \<longrightarrow> Navigation w = NavigationContainer TabNavigator) \<and>
   (loading w = loading v \<and> isAuthenticated w = isAuthenticated v \<longrightarrow>
      Navigation w = Navigation v) \<and>
   length Tab_Screens = 5 \<and>
   map fst Tab_Screens = [''Home'', ''Workouts'', ''Sleep'', ''Recovery'', ''Profile''] \<and>
   distinct (map fst Tab_Screens) \<and>
   map (fst \<circ> snd) Tab_Screens =
     [HomeScreen, WorkoutsScreen, SleepScreen, RecoveryScreen, ProfileScreen] \<and>
   distinct (map (fst \<circ> snd) Tab_Screens) \<and>
   map_of Tab_Screens ''Home'' = Some (HomeScreen, Some ''Dashboard'') \<and>
   map (\<lambda>t. tabBarIcon (fst t) True) Tab_Screens =
     [''home'', ''fitness'', ''moon'', ''refresh-circle'', ''person''] \<and>
   (\<forall>t \<in> set Tab_Screens. tabBarIcon (fst t) False = tabBarIcon (fst t) True @ ''-outline'')"
  by (simp add: Navigation_def Tab_Screens_def tabBarIcon_def)

text \<open>C6 on a loading session, a signed-out session, a signed-in session and the Sleep tab.\<close>

theorem Navigation_selection_witness:
  "loading (initial Map.empty) \<and> Navigation (initial Map.empty) = ActivityIndicator \<and>
   \<not> loading signed_out \<and> \<not> isAuthenticated signed_out \<and>
   Navigation signed_out = NavigationContainer AuthNavigator \<and>
   \<not> loading signed_in \<and> isAuthenticated signed_in \<and>
   Navigation signed_in = NavigationContainer TabNavigator \<and>
   (''Sleep'', SleepScreen, None) \<in> set Tab_Screens \<and>
   tabBarIcon ''Sleep'' True = ''moon'' \<and> tabBarIcon ''Sleep'' False = ''moon-outline''"
  using Navigation_selection [where w = "initial Map.empty" and v = "initial Map.empty"]
    Navigation_selection [where w = signed_out and v = signed_out]
    Navigation_selection [where w = signed_in and v = signed_in]
  by (simp add: initial_def signed_out_eq signed_in_eq Tab_Screens_def tabBarIcon_def)

end
